theory Spec2Isabelle
  imports Main
begin

section \<open>Data model\<close>

text \<open>
  The entity \<open>User\<close> (user.entity.ts). The primary key is generated by the store, so an
  entity built by \<open>new User()\<close> has no identifier yet: \<open>user_id = None\<close>. The service
  touches the six columns below only.
\<close>

record user =
  user_id :: "int option"
  user_firstName :: string
  user_lastName :: string
  user_email :: string
  user_password :: string
  user_role :: string

text \<open>The interface \<open>UserResponse\<close>: the trimmed shape, which has no password field.\<close>

record user_response =
  res_id :: "int option"
  res_firstName :: string
  res_lastName :: string
  res_email :: string
  res_role :: string

text \<open>
  The interface \<open>IResponse\<close>. Its payload is \<open>any | null\<close>; the service stores there
  either nothing, the access token of a login, or the list of trimmed users.
\<close>

datatype response_status = Failure | Success

datatype payload_value = Null | AccessToken string | UserList "user_response list"

record iresponse =
  status :: response_status
  message :: string
  code :: int
  payload :: payload_value

text \<open>
  \<open>CreateUserDto\<close> and \<open>LoginDto\<close>. The four required fields are strings, the role is
  optional. A required field that the request leaves out is \<open>undefined\<close>, which the
  negation \<open>!\<close> treats as it treats the empty string; both are the empty string here.
\<close>

record create_user_dto =
  dto_firstName :: string
  dto_lastName :: string
  dto_email :: string
  dto_password :: string
  dto_role :: "string option"

record login_dto =
  login_email :: string
  login_password :: string

text \<open>The object that \<open>login\<close> hands to the token issuer.\<close>

record claims =
  claim_userId :: "int option"
  claim_firstName :: string
  claim_lastName :: string
  claim_email :: string
  claim_role :: string

text \<open>
  A thrown value. The handlers of \<open>login\<close> and \<open>getAllUsers\<close> test
  \<open>error instanceof Error\<close>: \<open>ErrorInstance m\<close> is an \<open>Error\<close> object (or one of a
  subclass, such as \<open>NotFoundException\<close>) whose message is \<open>m\<close>; \<open>NonError p\<close> is any
  other thrown value, \<open>p\<close> being its \<open>message\<close> property when it has one.
\<close>

datatype thrown = ErrorInstance string | NonError "string option"

fun thrown_message :: "thrown \<Rightarrow> string option" where
  "thrown_message (ErrorInstance m) = Some m"
| "thrown_message (NonError p) = p"

section \<open>The collaborators of the service\<close>

text \<open>
  The service is built from a repository of users and a token issuer, and it imports the
  password hasher. None of the three is code of the repository, so they are parameters:
  the state \<open>'s\<close> of the store is abstract, every call either throws or returns, and
  \<open>save\<close> also yields the next state of the store. A lookup that finds nothing returns
  \<open>null\<close>, here \<open>None\<close>; the result of \<open>save\<close> is tested for truthiness by the
  service, so it is an option too. The hasher salts at random: \<open>bcrypt_hash\<close> stands for
  the answers it gives during the call at hand.
\<close>

record 's deps =
  repo_findOne :: "'s \<Rightarrow> string \<Rightarrow> thrown + user option"
  repo_save :: "'s \<Rightarrow> user \<Rightarrow> (thrown + user option) \<times> 's"
  repo_find :: "'s \<Rightarrow> thrown + user list"
  bcrypt_hash :: "string \<Rightarrow> nat \<Rightarrow> thrown + string"
  bcrypt_compare :: "string \<Rightarrow> string \<Rightarrow> thrown + bool"
  jwt_sign :: "claims \<Rightarrow> thrown + string"

section \<open>The service\<close>

text \<open>\<open>!x\<close> on a string: only the empty string is falsy.\<close>

definition falsy :: "string \<Rightarrow> bool" where
  "falsy x = (x = [])"

text \<open>\<open>x || y\<close> where \<open>x\<close> is an optional string.\<close>

definition or_default :: "string option \<Rightarrow> string \<Rightarrow> string" where
  "or_default x y = (case x of None \<Rightarrow> y | Some v \<Rightarrow> if falsy v then y else v)"

text \<open>
  Modelled from the spec: the enumeration \<open>UserRoles\<close> (enums/enum) is not among the
  sources; the spec gives its values as \<open>user\<close> and \<open>admin\<close>, with \<open>user\<close> the default.
\<close>

definition UserRoles_User :: string where
  "UserRoles_User = ''user''"

definition UserRoles_Admin :: string where
  "UserRoles_Admin = ''admin''"

text \<open>The envelope every operation starts from.\<close>

definition initial_response :: iresponse where
  "initial_response = \<lparr>status = Failure, message = [], code = 400, payload = Null\<rparr>"

subsection \<open>create\<close>

text \<open>The entity that \<open>create\<close> fills in before saving it.\<close>

definition new_user :: "string \<Rightarrow> string \<Rightarrow> string \<Rightarrow> string \<Rightarrow> string \<Rightarrow> user" where
  "new_user firstName lastName email hashedPassword role =
     \<lparr>user_id = None, user_firstName = firstName, user_lastName = lastName,
      user_email = email, user_password = hashedPassword, user_role = role\<rparr>"

text \<open>
  The \<open>try\<close> block of \<open>create\<close> with its handler: whatever the hasher or the store
  throws is logged and replaced by \<open>new Error('Error creating user')\<close>, which is thrown.
\<close>

definition create_try ::
  "'s deps \<Rightarrow> iresponse \<Rightarrow> string \<Rightarrow> string \<Rightarrow> string \<Rightarrow> string \<Rightarrow> string \<Rightarrow> 's
     \<Rightarrow> (thrown + iresponse) \<times> 's" where
  "create_try d response firstName lastName email password role s =
     (case bcrypt_hash d password 10 of
        Inl e \<Rightarrow> (Inl (ErrorInstance ''Error creating user''), s)
      | Inr hashedPassword \<Rightarrow>
          (case repo_save d s (new_user firstName lastName email hashedPassword role) of
             (Inl e, s') \<Rightarrow> (Inl (ErrorInstance ''Error creating user''), s')
           | (Inr savedUser, s') \<Rightarrow>
               (Inr (if savedUser \<noteq> None
                     then response\<lparr>status := Success,
                                   message := ''User created successfully'',
                                   code := 201\<rparr>
                     else response), s')))"

text \<open>
  \<open>create\<close>. The lookup by email stands before the \<open>try\<close> block, so what it throws
  reaches the caller as it is.
\<close>

definition create :: "'s deps \<Rightarrow> create_user_dto \<Rightarrow> 's \<Rightarrow> (thrown + iresponse) \<times> 's" where
  "create d createUserDto s =
     (let response = initial_response;
          firstName = dto_firstName createUserDto;
          lastName = dto_lastName createUserDto;
          email = dto_email createUserDto;
          password = dto_password createUserDto
      in if falsy firstName \<or> falsy lastName \<or> falsy email \<or> falsy password
         then (Inr (response\<lparr>message := ''All fields are required''\<rparr>), s)
         else
           let role = or_default (dto_role createUserDto) UserRoles_User
           in case repo_findOne d s email of
                Inl e \<Rightarrow> (Inl e, s)
              | Inr (Some userExist) \<Rightarrow>
                  (Inr (response\<lparr>message := ''User with this email already exists''\<rparr>), s)
              | Inr None \<Rightarrow>
                  create_try d response firstName lastName email password role s)"

subsection \<open>login\<close>

text \<open>What a handler writes into the message of the envelope.\<close>

definition catch_message :: "string \<Rightarrow> thrown \<Rightarrow> string" where
  "catch_message unknown e = (case e of ErrorInstance m \<Rightarrow> m | NonError p \<Rightarrow> unknown)"

text \<open>
  The \<open>try\<close> block of \<open>login\<close>. Each call that can throw comes before the first
  assignment to the envelope on its path, so the handler finds the initial envelope.
\<close>

definition login_try :: "'s deps \<Rightarrow> iresponse \<Rightarrow> string \<Rightarrow> string \<Rightarrow> 's \<Rightarrow> thrown + iresponse" where
  "login_try d response email password s =
     (case repo_findOne d s email of
        Inl e \<Rightarrow> Inl e
      | Inr None \<Rightarrow> Inr (response\<lparr>message := ''User not found''\<rparr>)
      | Inr (Some u) \<Rightarrow>
          (case bcrypt_compare d password (user_password u) of
             Inl e \<Rightarrow> Inl e
           | Inr isPasswordValid \<Rightarrow>
               if \<not> isPasswordValid
               then Inr (response\<lparr>message := ''Invalid password''\<rparr>)
               else
                 let payload = \<lparr>claim_userId = user_id u,
                                claim_firstName = user_firstName u,
                                claim_lastName = user_lastName u,
                                claim_email = user_email u,
                                claim_role = user_role u\<rparr>
                 in case jwt_sign d payload of
                      Inl e \<Rightarrow> Inl e
                    | Inr accessToken \<Rightarrow>
                        Inr (response\<lparr>status := Success,
                                       message := ''Login successful'',
                                       payload := AccessToken accessToken,
                                       code := 200\<rparr>)))"

definition login :: "'s deps \<Rightarrow> login_dto \<Rightarrow> 's \<Rightarrow> (thrown + iresponse) \<times> 's" where
  "login d loginDto s =
     (let response = initial_response;
          email = login_email loginDto;
          password = login_password loginDto
      in if falsy email \<or> falsy password
         then (Inr (response\<lparr>message := ''Email and password are required''\<rparr>), s)
         else
           case login_try d response email password s of
             Inr r \<Rightarrow> (Inr r, s)
           | Inl e \<Rightarrow>
               (Inr (response\<lparr>message :=
                       catch_message ''An unknown error occurred during login'' e\<rparr>), s))"

subsection \<open>getAllUsers\<close>

definition to_response :: "user \<Rightarrow> user_response" where
  "to_response u =
     \<lparr>res_id = user_id u, res_firstName = user_firstName u, res_lastName = user_lastName u,
      res_email = user_email u, res_role = user_role u\<rparr>"

text \<open>The loop \<open>for (const user of users) userResponse.push(...)\<close>.\<close>

fun push_users :: "user list \<Rightarrow> user_response list \<Rightarrow> user_response list" where
  "push_users [] userResponse = userResponse"
| "push_users (u # users) userResponse = push_users users (userResponse @ [to_response u])"

text \<open>The \<open>try\<close> block, shared by both versions of \<open>getAllUsers\<close>.\<close>

definition getAllUsers_try :: "'s deps \<Rightarrow> iresponse \<Rightarrow> 's \<Rightarrow> thrown + iresponse" where
  "getAllUsers_try d response s =
     (case repo_find d s of
        Inl e \<Rightarrow> Inl e
      | Inr users \<Rightarrow>
          if length users > 0
          then Inr (response\<lparr>status := Success,
                             message := ''Users retrieved successfully'',
                             payload := UserList (push_users users []),
                             code := 200\<rparr>)
          else Inl (ErrorInstance ''No users found''))"

text \<open>The service with login: the handler keeps the message of an \<open>Error\<close>.\<close>

definition getAllUsers :: "'s deps \<Rightarrow> 's \<Rightarrow> (thrown + iresponse) \<times> 's" where
  "getAllUsers d s =
     (let response = initial_response
      in case getAllUsers_try d response s of
           Inr r \<Rightarrow> (Inr r, s)
         | Inl e \<Rightarrow>
             (Inr (response\<lparr>message :=
                     catch_message ''An unknown error occurred while retrieving users'' e\<rparr>), s))"

text \<open>The earlier service, without login: the handler writes a fixed message.\<close>

definition getAllUsers_v1 :: "'s deps \<Rightarrow> 's \<Rightarrow> (thrown + iresponse) \<times> 's" where
  "getAllUsers_v1 d s =
     (let response = initial_response
      in case getAllUsers_try d response s of
           Inr r \<Rightarrow> (Inr r, s)
         | Inl e \<Rightarrow> (Inr (response\<lparr>message := ''Error retrieving users''\<rparr>), s))"

subsection \<open>findOne, update, remove\<close>

text \<open>
  The three placeholders. The template literal renders the number \<open>id\<close> with the
  language's own conversion to a string, the parameter \<open>toString\<close>; the methods never
  reach for the repository, so the store comes back as it went in.
\<close>

definition findOne :: "('n \<Rightarrow> string) \<Rightarrow> 'n \<Rightarrow> 's \<Rightarrow> string \<times> 's" where
  "findOne toString ident s = (''This action returns a #'' @ toString ident @ '' user'', s)"

definition update :: "('n \<Rightarrow> string) \<Rightarrow> 'n \<Rightarrow> 'dto \<Rightarrow> 's \<Rightarrow> string \<times> 's" where
  "update toString ident updateUserDto s =
     (''This action updates a #'' @ toString ident @ '' user'', s)"

definition remove_user :: "('n \<Rightarrow> string) \<Rightarrow> 'n \<Rightarrow> 's \<Rightarrow> string \<times> 's" where
  "remove_user toString ident s = (''This action removes a #'' @ toString ident @ '' user'', s)"

section \<open>An in-memory instance of the collaborators\<close>

text \<open>
  A store that is the list of its rows, a hasher that marks and reverses the password,
  and an issuer whose token names the email: enough to run the service on examples. The
  entity declares the column \<open>role\<close> as an enumeration over \<open>UserRoles\<close>, so the store
  refuses a row whose role is none of its values: \<open>save\<close> throws and the rows stay as
  they were.
\<close>

definition memory_findOne :: "user list \<Rightarrow> string \<Rightarrow> thrown + user option" where
  "memory_findOne s email = Inr (find (\<lambda>u. user_email u = email) s)"

definition memory_save :: "user list \<Rightarrow> user \<Rightarrow> (thrown + user option) \<times> user list" where
  "memory_save s u =
     (if user_role u = UserRoles_User \<or> user_role u = UserRoles_Admin
      then let saved = u\<lparr>user_id := Some (int (length s) + 1)\<rparr>
           in (Inr (Some saved), s @ [saved])
      else (Inl (ErrorInstance ''invalid input value for enum''), s))"

definition memory_deps :: "user list deps" where
  "memory_deps =
     \<lparr>repo_findOne = memory_findOne,
      repo_save = memory_save,
      repo_find = (\<lambda>s. Inr s),
      bcrypt_hash = (\<lambda>password rounds. Inr (''$2b$'' @ rev password)),
      bcrypt_compare = (\<lambda>password hashed. Inr (hashed = ''$2b$'' @ rev password)),
      jwt_sign = (\<lambda>c. Inr (''jwt.'' @ claim_email c))\<rparr>"

definition jane :: create_user_dto where
  "jane = \<lparr>dto_firstName = ''Jane'', dto_lastName = ''Doe'', dto_email = ''jane@x.com'',
           dto_password = ''secret123'', dto_role = None\<rparr>"

definition jane_row :: user where
  "jane_row = \<lparr>user_id = Some 1, user_firstName = ''Jane'', user_lastName = ''Doe'',
               user_email = ''jane@x.com'', user_password = ''$2b$321terces'',
               user_role = ''user''\<rparr>"

definition joe_row :: user where
  "joe_row = \<lparr>user_id = Some 2, user_firstName = ''Joe'', user_lastName = ''Roe'',
              user_email = ''joe@x.com'', user_password = ''$2b$drowssap'',
              user_role = ''admin''\<rparr>"

definition jane_login :: login_dto where
  "jane_login = \<lparr>login_email = ''jane@x.com'', login_password = ''secret123''\<rparr>"

text \<open>Collaborators that fail: a lookup that throws a value that is no \<open>Error\<close>, a
  store that rejects the row, and a hasher whose comparison throws.\<close>

definition failing_lookup :: "user list deps" where
  "failing_lookup =
     memory_deps\<lparr>repo_findOne := (\<lambda>s email. Inl (NonError (Some ''connection lost'')))\<rparr>"

definition failing_save :: "user list deps" where
  "failing_save =
     memory_deps\<lparr>repo_save := (\<lambda>s u. (Inl (ErrorInstance ''duplicate key''), s))\<rparr>"

definition failing_compare :: "user list deps" where
  "failing_compare =
     memory_deps\<lparr>bcrypt_compare :=
       (\<lambda>p h. Inl (ErrorInstance ''data and hash arguments required''))\<rparr>"

section \<open>The shape of an envelope\<close>

text \<open>
  Success goes with the codes 200 and 201 and with no other; a Failure carries the code
  400 and no payload.
\<close>

definition envelope_ok :: "iresponse \<Rightarrow> bool" where
  "envelope_ok r =
     (((status r = Success) = (code r = 200 \<or> code r = 201))
      \<and> (status r = Failure \<longrightarrow> code r = 400 \<and> payload r = Null))"

section \<open>Properties\<close>

lemma push_users_append: "push_users users acc = acc @ map to_response users"
  by (induction users arbitrary: acc) simp_all

text \<open>
  C1, as amended. A registration whose four required fields are non-empty, whose email
  the store does not know and whose row the store accepts on \<open>save\<close> returns the
  envelope Success, 201, "User created successfully". The entity handed to the store
  carries the hash that the hasher made of the input password, not the password: with a
  hasher whose hashes verify against the password they were made of and are not that
  password, it verifies against the input password and differs from it.
\<close>

theorem create_valid_new_user:
  assumes "dto_firstName dto \<noteq> []" and "dto_lastName dto \<noteq> []"
    and "dto_email dto \<noteq> []" and "dto_password dto \<noteq> []"
    and "repo_findOne d s (dto_email dto) = Inr None"
    and "bcrypt_hash d (dto_password dto) 10 = Inr h"
    and "\<And>p x. bcrypt_hash d p 10 = Inr x \<Longrightarrow> bcrypt_compare d p x = Inr True \<and> x \<noteq> p"
    and "repo_save d s (new_user (dto_firstName dto) (dto_lastName dto) (dto_email dto) h
                          (or_default (dto_role dto) UserRoles_User)) = (Inr (Some saved), s')"
  shows "create d dto s =
           (Inr \<lparr>status = Success, message = ''User created successfully'', code = 201,
                 payload = Null\<rparr>, s')
         \<and> bcrypt_hash d (dto_password dto) 10 =
             Inr (user_password (new_user (dto_firstName dto) (dto_lastName dto)
                                   (dto_email dto) h (or_default (dto_role dto) UserRoles_User)))
         \<and> bcrypt_compare d (dto_password dto)
             (user_password (new_user (dto_firstName dto) (dto_lastName dto) (dto_email dto) h
                               (or_default (dto_role dto) UserRoles_User))) = Inr True
         \<and> user_password (new_user (dto_firstName dto) (dto_lastName dto) (dto_email dto) h
                            (or_default (dto_role dto) UserRoles_User)) \<noteq> dto_password dto"
proof -
  from assms(6,7) have "bcrypt_compare d (dto_password dto) h = Inr True"
    and "h \<noteq> dto_password dto"
    by blast+
  with assms(1-6,8) show ?thesis
    by (simp add: create_def create_try_def falsy_def initial_response_def new_user_def)
qed

theorem create_valid_new_user_witness:
  "create memory_deps jane [] =
     (Inr \<lparr>status = Success, message = ''User created successfully'', code = 201,
           payload = Null\<rparr>, [jane_row])
   \<and> bcrypt_hash memory_deps ''secret123'' 10 = Inr (user_password jane_row)
   \<and> bcrypt_compare memory_deps ''secret123'' (user_password jane_row) = Inr True
   \<and> user_password jane_row \<noteq> ''secret123''"
proof -
  have contract: "bcrypt_compare memory_deps p x = Inr True \<and> x \<noteq> p"
    if "bcrypt_hash memory_deps p 10 = Inr x" for p x
  proof -
    from that have x: "x = ''$2b$'' @ rev p"
      by (simp add: memory_deps_def)
    then have "length x \<noteq> length p"
      by simp
    with x show ?thesis
      by (auto simp: memory_deps_def)
  qed
  have "dto_firstName jane \<noteq> []" and "dto_lastName jane \<noteq> []"
    and "dto_email jane \<noteq> []" and "dto_password jane \<noteq> []"
    by (simp_all add: jane_def)
  moreover have "repo_findOne memory_deps [] (dto_email jane) = Inr None"
    by (simp add: memory_deps_def memory_findOne_def)
  moreover have "bcrypt_hash memory_deps (dto_password jane) 10 = Inr ''$2b$321terces''"
    by (simp add: memory_deps_def jane_def)
  moreover have "repo_save memory_deps []
      (new_user (dto_firstName jane) (dto_lastName jane) (dto_email jane) ''$2b$321terces''
         (or_default (dto_role jane) UserRoles_User)) = (Inr (Some jane_row), [jane_row])"
    by (simp add: memory_deps_def memory_save_def new_user_def or_default_def
          UserRoles_User_def jane_def jane_row_def Let_def)
  ultimately show ?thesis
    using create_valid_new_user [of jane memory_deps "[]" "''$2b$321terces''" jane_row
                                    "[jane_row]", OF _ _ _ _ _ _ contract]
    by (simp add: jane_def jane_row_def new_user_def)
qed

text \<open>
  C1 as it was stated promises success for every input with four non-empty fields and
  an unused email. A role outside the enumeration is such an input, and the store refuses
  its row: \<open>create\<close> throws and returns no envelope.
\<close>

theorem create_valid_new_user_counterexample:
  "dto_firstName (jane\<lparr>dto_role := Some ''superuser''\<rparr>) \<noteq> []
   \<and> dto_lastName (jane\<lparr>dto_role := Some ''superuser''\<rparr>) \<noteq> []
   \<and> dto_email (jane\<lparr>dto_role := Some ''superuser''\<rparr>) \<noteq> []
   \<and> dto_password (jane\<lparr>dto_role := Some ''superuser''\<rparr>) \<noteq> []
   \<and> repo_findOne memory_deps [] (dto_email (jane\<lparr>dto_role := Some ''superuser''\<rparr>)) = Inr None
   \<and> create memory_deps (jane\<lparr>dto_role := Some ''superuser''\<rparr>) [] =
       (Inl (ErrorInstance ''Error creating user''), [])"
  by (simp add: create_def create_try_def falsy_def initial_response_def jane_def
        memory_deps_def memory_findOne_def memory_save_def new_user_def or_default_def
        UserRoles_User_def UserRoles_Admin_def)

text \<open>
  C2. The outcomes of a login, in the order in which the code tests for them: an empty
  email or password gives Failure, 400, "Email and password are required"; an email that
  no stored record has gives "User not found"; a record whose stored hash the password
  does not verify against gives "Invalid password"; a password that verifies gives
  Success, 200, "Login successful", the payload being the token of the issuer, which is
  not empty when the issuer's token is not.
\<close>

theorem login_cases:
  "(login_email dto = [] \<or> login_password dto = [] \<longrightarrow>
      login d dto s =
        (Inr \<lparr>status = Failure, message = ''Email and password are required'', code = 400,
              payload = Null\<rparr>, s))
   \<and> (login_email dto \<noteq> [] \<and> login_password dto \<noteq> []
        \<and> repo_findOne d s (login_email dto) = Inr None \<longrightarrow>
      login d dto s =
        (Inr \<lparr>status = Failure, message = ''User not found'', code = 400,
              payload = Null\<rparr>, s))
   \<and> (login_email dto \<noteq> [] \<and> login_password dto \<noteq> []
        \<and> repo_findOne d s (login_email dto) = Inr (Some u)
        \<and> bcrypt_compare d (login_password dto) (user_password u) = Inr False \<longrightarrow>
      login d dto s =
        (Inr \<lparr>status = Failure, message = ''Invalid password'', code = 400,
              payload = Null\<rparr>, s))
   \<and> (login_email dto \<noteq> [] \<and> login_password dto \<noteq> []
        \<and> repo_findOne d s (login_email dto) = Inr (Some u)
        \<and> bcrypt_compare d (login_password dto) (user_password u) = Inr True
        \<and> jwt_sign d \<lparr>claim_userId = user_id u, claim_firstName = user_firstName u,
                       claim_lastName = user_lastName u, claim_email = user_email u,
                       claim_role = user_role u\<rparr> = Inr token
        \<and> token \<noteq> [] \<longrightarrow>
      login d dto s =
        (Inr \<lparr>status = Success, message = ''Login successful'', code = 200,
              payload = AccessToken token\<rparr>, s)
      \<and> token \<noteq> [])"
  by (simp add: login_def login_try_def falsy_def initial_response_def)

theorem login_cases_witness:
  "login memory_deps (jane_login\<lparr>login_password := []\<rparr>) [jane_row] =
     (Inr \<lparr>status = Failure, message = ''Email and password are required'', code = 400,
           payload = Null\<rparr>, [jane_row])
   \<and> login memory_deps jane_login [] =
     (Inr \<lparr>status = Failure, message = ''User not found'', code = 400,
           payload = Null\<rparr>, [])
   \<and> login memory_deps (jane_login\<lparr>login_password := ''secret''\<rparr>) [jane_row] =
     (Inr \<lparr>status = Failure, message = ''Invalid password'', code = 400,
           payload = Null\<rparr>, [jane_row])
   \<and> login memory_deps jane_login [jane_row] =
     (Inr \<lparr>status = Success, message = ''Login successful'', code = 200,
           payload = AccessToken ''jwt.jane@x.com''\<rparr>, [jane_row])"
  using login_cases [of "jane_login\<lparr>login_password := []\<rparr>" memory_deps "[jane_row]"]
    login_cases [of jane_login memory_deps "[]"]
    login_cases [of "jane_login\<lparr>login_password := ''secret''\<rparr>" memory_deps "[jane_row]"
                    jane_row]
    login_cases [of jane_login memory_deps "[jane_row]" jane_row "''jwt.jane@x.com''"]
  by (simp add: jane_login_def jane_row_def memory_deps_def memory_findOne_def)

text \<open>
  C3. A registration in which at least one of first name, last name, email and password
  is empty returns the envelope Failure, 400, "All fields are required", whichever
  fields are the empty ones; nothing is thrown and the store is not touched.
\<close>

theorem create_missing_field:
  assumes "dto_firstName dto = [] \<or> dto_lastName dto = [] \<or> dto_email dto = []
           \<or> dto_password dto = []"
  shows "create d dto s =
           (Inr \<lparr>status = Failure, message = ''All fields are required'', code = 400,
                 payload = Null\<rparr>, s)"
  using assms by (auto simp: create_def falsy_def initial_response_def)

theorem create_missing_field_witness:
  "dto_lastName (jane\<lparr>dto_lastName := [], dto_password := []\<rparr>) = []
   \<and> create memory_deps (jane\<lparr>dto_lastName := [], dto_password := []\<rparr>) [jane_row] =
     (Inr \<lparr>status = Failure, message = ''All fields are required'', code = 400,
           payload = Null\<rparr>, [jane_row])"
  using create_missing_field [of "jane\<lparr>dto_lastName := [], dto_password := []\<rparr>"
                                 memory_deps "[jane_row]"]
  by simp

text \<open>
  C4, as amended. When a record with the email exists and the four required fields of
  the registration are non-empty, \<open>create\<close> returns Failure, 400, "User with this email
  already exists" and the store is left as it was: nothing is saved.
\<close>

theorem create_duplicate_email:
  assumes "dto_firstName dto \<noteq> []" and "dto_lastName dto \<noteq> []"
    and "dto_email dto \<noteq> []" and "dto_password dto \<noteq> []"
    and "repo_findOne d s (dto_email dto) = Inr (Some u)"
  shows "create d dto s =
           (Inr \<lparr>status = Failure, message = ''User with this email already exists'',
                 code = 400, payload = Null\<rparr>, s)"
  using assms by (simp add: create_def falsy_def initial_response_def)

theorem create_duplicate_email_witness:
  "repo_findOne memory_deps [jane_row] (dto_email jane) = Inr (Some jane_row)
   \<and> create memory_deps jane [jane_row] =
       (Inr \<lparr>status = Failure, message = ''User with this email already exists'',
             code = 400, payload = Null\<rparr>, [jane_row])"
  using create_duplicate_email [of jane memory_deps "[jane_row]" jane_row]
  by (simp add: jane_def jane_row_def memory_deps_def memory_findOne_def)

text \<open>
  C4 as it was stated asks for that message whatever the other fields are. The check of
  the required fields comes first: with the first name empty the answer is "All fields
  are required", although the email is taken.
\<close>

theorem create_duplicate_email_counterexample:
  "repo_findOne memory_deps [jane_row] (dto_email (jane\<lparr>dto_firstName := []\<rparr>))
     = Inr (Some jane_row)
   \<and> create memory_deps (jane\<lparr>dto_firstName := []\<rparr>) [jane_row] =
       (Inr \<lparr>status = Failure, message = ''All fields are required'', code = 400,
             payload = Null\<rparr>, [jane_row])
   \<and> create memory_deps (jane\<lparr>dto_firstName := []\<rparr>) [jane_row] \<noteq>
       (Inr \<lparr>status = Failure, message = ''User with this email already exists'', code = 400,
             payload = Null\<rparr>, [jane_row])"
  by (simp add: create_def falsy_def initial_response_def jane_def jane_row_def
        memory_deps_def memory_findOne_def)

text \<open>
  C5, as amended. On an empty store the service with login returns Failure, 400 with the
  message of the not-found exception, "No users found": its handler copies the message
  of an \<open>Error\<close>. Only the earlier service drops it for the fixed text "Error
  retrieving users".
\<close>

theorem getAllUsers_empty:
  assumes "repo_find d s = Inr []"
  shows "getAllUsers d s =
           (Inr \<lparr>status = Failure, message = ''No users found'', code = 400,
                 payload = Null\<rparr>, s)
         \<and> getAllUsers_v1 d s =
           (Inr \<lparr>status = Failure, message = ''Error retrieving users'', code = 400,
                 payload = Null\<rparr>, s)"
  using assms
  by (simp add: getAllUsers_def getAllUsers_v1_def getAllUsers_try_def catch_message_def
        initial_response_def)

theorem getAllUsers_empty_witness:
  "repo_find memory_deps [] = Inr []
   \<and> getAllUsers memory_deps [] =
       (Inr \<lparr>status = Failure, message = ''No users found'', code = 400,
             payload = Null\<rparr>, [])
   \<and> getAllUsers_v1 memory_deps [] =
       (Inr \<lparr>status = Failure, message = ''Error retrieving users'', code = 400,
             payload = Null\<rparr>, [])"
  using getAllUsers_empty [of memory_deps "[]"]
  by (simp add: memory_deps_def)

text \<open>
  C5 as it was stated says that the message is not "No users found". On the empty
  in-memory store it is exactly that.
\<close>

theorem getAllUsers_empty_counterexample:
  "repo_find memory_deps [] = Inr []
   \<and> getAllUsers memory_deps [] =
       (Inr \<lparr>status = Failure, message = ''No users found'', code = 400,
             payload = Null\<rparr>, [])"
  by (simp add: getAllUsers_def getAllUsers_try_def catch_message_def initial_response_def
        memory_deps_def)

text \<open>
  C6. On a store from which \<open>find\<close> returns a non-empty list of \<open>N\<close> records,
  \<open>getAllUsers\<close> returns Success, 200 with a payload of \<open>N\<close> entries, in the order
  of that list, each made of id, first name, last name, email and role; an entry has no
  field for the password.
\<close>

theorem getAllUsers_nonempty:
  assumes "repo_find d s = Inr users" and "users \<noteq> []"
  shows "getAllUsers d s =
           (Inr \<lparr>status = Success, message = ''Users retrieved successfully'', code = 200,
                 payload = UserList
                   (map (\<lambda>u. \<lparr>res_id = user_id u, res_firstName = user_firstName u,
                              res_lastName = user_lastName u, res_email = user_email u,
                              res_role = user_role u\<rparr>) users)\<rparr>, s)
         \<and> length (map (\<lambda>u. \<lparr>res_id = user_id u, res_firstName = user_firstName u,
                              res_lastName = user_lastName u, res_email = user_email u,
                              res_role = user_role u\<rparr>) users) = length users"
proof -
  have "to_response = (\<lambda>u. \<lparr>res_id = user_id u, res_firstName = user_firstName u,
                             res_lastName = user_lastName u, res_email = user_email u,
                             res_role = user_role u\<rparr>)"
    by (rule ext) (simp add: to_response_def)
  with assms show ?thesis
    by (simp add: getAllUsers_def getAllUsers_try_def initial_response_def push_users_append)
qed

theorem getAllUsers_nonempty_witness:
  "repo_find memory_deps [jane_row, joe_row] = Inr [jane_row, joe_row]
   \<and> getAllUsers memory_deps [jane_row, joe_row] =
       (Inr \<lparr>status = Success, message = ''Users retrieved successfully'', code = 200,
             payload = UserList
               [\<lparr>res_id = Some 1, res_firstName = ''Jane'', res_lastName = ''Doe'',
                 res_email = ''jane@x.com'', res_role = ''user''\<rparr>,
                \<lparr>res_id = Some 2, res_firstName = ''Joe'', res_lastName = ''Roe'',
                 res_email = ''joe@x.com'', res_role = ''admin''\<rparr>]\<rparr>, [jane_row, joe_row])"
  using getAllUsers_nonempty [of memory_deps "[jane_row, joe_row]" "[jane_row, joe_row]"]
  by (simp add: memory_deps_def jane_row_def joe_row_def)

text \<open>
  C7, as amended. When the store throws on \<open>save\<close>, \<open>create\<close> throws the error
  "Error creating user" and returns no envelope. \<open>login\<close> always returns an envelope:
  when the lookup or the verification throws, the envelope is Failure, 400 and its
  message is that of the thrown value if this is an \<open>Error\<close>, and the fixed text "An
  unknown error occurred during login" if it is not.
\<close>

theorem error_propagation:
  "(dto_firstName dto \<noteq> [] \<and> dto_lastName dto \<noteq> [] \<and> dto_email dto \<noteq> []
      \<and> dto_password dto \<noteq> []
      \<and> repo_findOne d s (dto_email dto) = Inr None
      \<and> bcrypt_hash d (dto_password dto) 10 = Inr h
      \<and> repo_save d s (new_user (dto_firstName dto) (dto_lastName dto) (dto_email dto) h
                         (or_default (dto_role dto) UserRoles_User)) = (Inl e, s') \<longrightarrow>
      create d dto s = (Inl (ErrorInstance ''Error creating user''), s'))
   \<and> (\<exists>r. login d ldto s = (Inr r, s))
   \<and> (login_email ldto \<noteq> [] \<and> login_password ldto \<noteq> []
        \<and> (repo_findOne d s (login_email ldto) = Inl e
            \<or> repo_findOne d s (login_email ldto) = Inr (Some u)
               \<and> bcrypt_compare d (login_password ldto) (user_password u) = Inl e) \<longrightarrow>
      login d ldto s =
        (Inr \<lparr>status = Failure,
              message = (case e of ErrorInstance m \<Rightarrow> m
                         | NonError p \<Rightarrow> ''An unknown error occurred during login''),
              code = 400, payload = Null\<rparr>, s))"
proof (intro conjI impI)
  assume "dto_firstName dto \<noteq> [] \<and> dto_lastName dto \<noteq> [] \<and> dto_email dto \<noteq> []
      \<and> dto_password dto \<noteq> []
      \<and> repo_findOne d s (dto_email dto) = Inr None
      \<and> bcrypt_hash d (dto_password dto) 10 = Inr h
      \<and> repo_save d s (new_user (dto_firstName dto) (dto_lastName dto) (dto_email dto) h
                         (or_default (dto_role dto) UserRoles_User)) = (Inl e, s')"
  then show "create d dto s = (Inl (ErrorInstance ''Error creating user''), s')"
    by (simp add: create_def create_try_def falsy_def)
next
  show "\<exists>r. login d ldto s = (Inr r, s)"
    by (simp add: login_def Let_def split: sum.split)
next
  assume a: "login_email ldto \<noteq> [] \<and> login_password ldto \<noteq> []
        \<and> (repo_findOne d s (login_email ldto) = Inl e
            \<or> repo_findOne d s (login_email ldto) = Inr (Some u)
               \<and> bcrypt_compare d (login_password ldto) (user_password u) = Inl e)"
  then have "login_try d initial_response (login_email ldto) (login_password ldto) s = Inl e"
    by (auto simp: login_try_def)
  with a show "login d ldto s =
        (Inr \<lparr>status = Failure,
              message = (case e of ErrorInstance m \<Rightarrow> m
                         | NonError p \<Rightarrow> ''An unknown error occurred during login''),
              code = 400, payload = Null\<rparr>, s)"
    by (simp add: login_def falsy_def catch_message_def initial_response_def)
qed

theorem error_propagation_witness:
  "create failing_save jane [] = (Inl (ErrorInstance ''Error creating user''), [])
   \<and> login failing_lookup jane_login [jane_row] =
       (Inr \<lparr>status = Failure, message = ''An unknown error occurred during login'',
             code = 400, payload = Null\<rparr>, [jane_row])
   \<and> login failing_compare jane_login [jane_row] =
       (Inr \<lparr>status = Failure, message = ''data and hash arguments required'',
             code = 400, payload = Null\<rparr>, [jane_row])"
  using error_propagation [of jane failing_save "[]" "''$2b$321terces''"
                              "ErrorInstance ''duplicate key''" "[]"]
    error_propagation [of _ failing_lookup "[jane_row]" _ "NonError (Some ''connection lost'')"
                          _ jane_login]
    error_propagation [of _ failing_compare "[jane_row]" _
                          "ErrorInstance ''data and hash arguments required''"
                          _ jane_login jane_row]
  by (simp add: failing_save_def failing_lookup_def failing_compare_def jane_def jane_login_def
        jane_row_def memory_deps_def memory_findOne_def new_user_def or_default_def
        UserRoles_User_def)

text \<open>
  C7 as it was stated gives the envelope the message of whatever was thrown. A thrown
  value that is no \<open>Error\<close> has its message replaced by the fixed text.
\<close>

theorem error_propagation_counterexample:
  "repo_findOne failing_lookup [jane_row] (login_email jane_login)
     = Inl (NonError (Some ''connection lost''))
   \<and> thrown_message (NonError (Some ''connection lost'')) = Some ''connection lost''
   \<and> login failing_lookup jane_login [jane_row] =
       (Inr \<lparr>status = Failure, message = ''An unknown error occurred during login'',
             code = 400, payload = Null\<rparr>, [jane_row])"
  by (simp add: login_def login_try_def falsy_def catch_message_def initial_response_def
        failing_lookup_def jane_login_def)

text \<open>
  C8. For every id, \<open>findOne\<close>, \<open>update\<close> and \<open>remove\<close> return the placeholder
  text that names the action and the id, whatever the store holds and whatever the update
  carries, and the store is unchanged.
\<close>

theorem placeholders:
  "findOne toString ident s = (''This action returns a #'' @ toString ident @ '' user'', s)
   \<and> update toString ident updateUserDto s =
       (''This action updates a #'' @ toString ident @ '' user'', s)
   \<and> remove_user toString ident s =
       (''This action removes a #'' @ toString ident @ '' user'', s)"
  by (simp add: findOne_def update_def remove_user_def)

text \<open>
  C9. Every envelope that \<open>create\<close>, \<open>login\<close> or \<open>getAllUsers\<close> returns has the
  status Success exactly when its code is 200 or 201, and a Failure has the code 400 and
  the payload null.
\<close>

theorem envelope_invariant:
  "(create d dto s = (Inr r, s') \<longrightarrow> envelope_ok r)
   \<and> (login d ldto s = (Inr r, s') \<longrightarrow> envelope_ok r)
   \<and> (getAllUsers d s = (Inr r, s') \<longrightarrow> envelope_ok r)"
proof (intro conjI impI)
  assume "create d dto s = (Inr r, s')"
  then show "envelope_ok r"
    by (auto simp: create_def create_try_def initial_response_def envelope_ok_def Let_def
          split: if_splits sum.splits option.splits prod.splits)
next
  assume "login d ldto s = (Inr r, s')"
  then show "envelope_ok r"
    by (auto simp: login_def login_try_def initial_response_def envelope_ok_def Let_def
          split: if_splits sum.splits option.splits)
next
  assume "getAllUsers d s = (Inr r, s')"
  then show "envelope_ok r"
    by (auto simp: getAllUsers_def getAllUsers_try_def initial_response_def envelope_ok_def
          Let_def split: if_splits sum.splits)
qed

theorem envelope_invariant_witness:
  "create memory_deps jane [] =
     (Inr \<lparr>status = Success, message = ''User created successfully'', code = 201,
           payload = Null\<rparr>, [jane_row])
   \<and> envelope_ok \<lparr>status = Success, message = ''User created successfully'', code = 201,
                   payload = Null\<rparr>
   \<and> login memory_deps jane_login [] =
     (Inr \<lparr>status = Failure, message = ''User not found'', code = 400,
           payload = Null\<rparr>, [])
   \<and> envelope_ok \<lparr>status = Failure, message = ''User not found'', code = 400,
                   payload = Null\<rparr>
   \<and> getAllUsers memory_deps [jane_row] =
     (Inr \<lparr>status = Success, message = ''Users retrieved successfully'', code = 200,
           payload = UserList [to_response jane_row]\<rparr>, [jane_row])
   \<and> envelope_ok \<lparr>status = Success, message = ''Users retrieved successfully'', code = 200,
                   payload = UserList [to_response jane_row]\<rparr>"
proof -
  have c: "create memory_deps jane [] =
     (Inr \<lparr>status = Success, message = ''User created successfully'', code = 201,
           payload = Null\<rparr>, [jane_row])"
    by (simp add: create_def create_try_def falsy_def initial_response_def jane_def
          jane_row_def memory_deps_def memory_findOne_def memory_save_def new_user_def
          or_default_def UserRoles_User_def Let_def)
  have l: "login memory_deps jane_login [] =
     (Inr \<lparr>status = Failure, message = ''User not found'', code = 400,
           payload = Null\<rparr>, [])"
    by (simp add: login_def login_try_def falsy_def initial_response_def jane_login_def
          memory_deps_def memory_findOne_def)
  have g: "getAllUsers memory_deps [jane_row] =
     (Inr \<lparr>status = Success, message = ''Users retrieved successfully'', code = 200,
           payload = UserList [to_response jane_row]\<rparr>, [jane_row])"
    by (simp add: getAllUsers_def getAllUsers_try_def initial_response_def memory_deps_def)
  from c l g
    envelope_invariant [of memory_deps jane "[]" _ "[jane_row]"]
    envelope_invariant [of memory_deps _ "[]" _ "[]" jane_login]
    envelope_invariant [of memory_deps _ "[jane_row]" _ "[jane_row]"]
  show ?thesis by simp
qed

text \<open>
  C10, as amended. \<open>create\<close> itself does not check the role against the enumeration.
  The entity it hands to the store has the role \<open>user\<close> when the input has no role or
  an empty one, and otherwise the role of the input as it is, whether or not it is
  \<open>user\<close> or \<open>admin\<close>. What becomes of that entity is the store's answer: when
  \<open>save\<close> returns the saved row, \<open>create\<close> returns Success, 201; when \<open>save\<close>
  throws, as the enumeration column makes it for a role that is neither, \<open>create\<close>
  throws "Error creating user"; in each case the store after the call is the one that
  \<open>save\<close> left.
\<close>

theorem create_role_unvalidated:
  assumes "dto_firstName dto \<noteq> []" and "dto_lastName dto \<noteq> []"
    and "dto_email dto \<noteq> []" and "dto_password dto \<noteq> []"
    and "repo_findOne d s (dto_email dto) = Inr None"
    and "bcrypt_hash d (dto_password dto) 10 = Inr h"
  shows "create d dto s =
           (case repo_save d s
                   \<lparr>user_id = None, user_firstName = dto_firstName dto,
                    user_lastName = dto_lastName dto, user_email = dto_email dto,
                    user_password = h,
                    user_role = (case dto_role dto of
                                   None \<Rightarrow> ''user''
                                 | Some r \<Rightarrow> if r = [] then ''user'' else r)\<rparr> of
              (Inl e, s') \<Rightarrow> (Inl (ErrorInstance ''Error creating user''), s')
            | (Inr None, s') \<Rightarrow>
                (Inr \<lparr>status = Failure, message = [], code = 400, payload = Null\<rparr>, s')
            | (Inr (Some saved), s') \<Rightarrow>
                (Inr \<lparr>status = Success, message = ''User created successfully'', code = 201,
                      payload = Null\<rparr>, s'))"
  using assms
  by (auto simp: create_def create_try_def falsy_def or_default_def UserRoles_User_def
        new_user_def initial_response_def Let_def split: sum.splits option.splits prod.splits)

theorem create_role_unvalidated_witness:
  "create memory_deps (jane\<lparr>dto_role := Some ''admin''\<rparr>) [] =
     (Inr \<lparr>status = Success, message = ''User created successfully'', code = 201,
           payload = Null\<rparr>, [jane_row\<lparr>user_role := ''admin''\<rparr>])
   \<and> create memory_deps (jane\<lparr>dto_role := Some []\<rparr>) [] =
     (Inr \<lparr>status = Success, message = ''User created successfully'', code = 201,
           payload = Null\<rparr>, [jane_row])
   \<and> create memory_deps jane [] =
     (Inr \<lparr>status = Success, message = ''User created successfully'', code = 201,
           payload = Null\<rparr>, [jane_row])
   \<and> create memory_deps (jane\<lparr>dto_role := Some ''superuser''\<rparr>) [joe_row] =
     (Inl (ErrorInstance ''Error creating user''), [joe_row])"
  using create_role_unvalidated [of "jane\<lparr>dto_role := Some ''admin''\<rparr>" memory_deps "[]"
                                    "''$2b$321terces''"]
    create_role_unvalidated [of "jane\<lparr>dto_role := Some []\<rparr>" memory_deps "[]"
                                "''$2b$321terces''"]
    create_role_unvalidated [of jane memory_deps "[]" "''$2b$321terces''"]
    create_role_unvalidated [of "jane\<lparr>dto_role := Some ''superuser''\<rparr>" memory_deps
                                "[joe_row]" "''$2b$321terces''"]
  by (simp add: jane_def jane_row_def joe_row_def memory_deps_def memory_findOne_def
        memory_save_def UserRoles_User_def UserRoles_Admin_def Let_def)

text \<open>
  C10 as it was stated has every non-empty role stored in the persisted record, also
  one outside the enumeration. The store refuses the role \<open>owner\<close>: after the call it
  holds the row it held before and no row with that role.
\<close>

theorem create_role_unvalidated_counterexample:
  "dto_role (jane\<lparr>dto_role := Some ''owner''\<rparr>) = Some ''owner''
   \<and> create memory_deps (jane\<lparr>dto_role := Some ''owner''\<rparr>) [joe_row] =
       (Inl (ErrorInstance ''Error creating user''), [joe_row])
   \<and> user_role joe_row \<noteq> ''owner''"
  by (simp add: create_def create_try_def falsy_def initial_response_def jane_def joe_row_def
        memory_deps_def memory_findOne_def memory_save_def new_user_def or_default_def
        UserRoles_User_def UserRoles_Admin_def)

end
